theory Spec2Isabelle
  imports Main "HOL-Library.Char_ord" "HOL-Library.List_Lexorder"
begin

section \<open>Python values and text operations used by server.py\<close>

text \<open>
  A Python \<open>str\<close> is modelled as a \<open>string\<close>, one \<open>char\<close> per character of the
  text, so the model covers texts whose characters are in the 8-bit range.  The values a
  cursor hands back (and the value \<open>read_resource\<close> returns) are \<open>scalar\<close>s:
  \<open>None\<close>, a \<open>bool\<close>, an \<open>int\<close> or a \<open>str\<close>.  Floats, decimals and dates are not
  part of the model.
\<close>

datatype scalar = SNone | SBool bool | SInt int | SStr string

text \<open>
  The exceptions that occur.  Each carries the message \<open>str(e)\<close> gives back.
  \<open>DriverError\<close> stands for whatever \<open>redshift_connector\<close> raises.
\<close>

datatype exn =
    ValueError string
  | RuntimeError string
  | UnboundLocalError string
  | IndexError string
  | TypeError string
  | DriverError string

fun str_exn :: "exn \<Rightarrow> string" where
  "str_exn (ValueError m) = m"
| "str_exn (RuntimeError m) = m"
| "str_exn (UnboundLocalError m) = m"
| "str_exn (IndexError m) = m"
| "str_exn (TypeError m) = m"
| "str_exn (DriverError m) = m"

definition newline :: char where
  "newline = CHR 0x0A"

text \<open>\<open>sep.join(xs)\<close> for a list of \<open>str\<close>.\<close>

fun str_join :: "string \<Rightarrow> string list \<Rightarrow> string" where
  "str_join sep [] = []"
| "str_join sep [x] = x"
| "str_join sep (x # y # ys) = x @ sep @ str_join sep (y # ys)"

text \<open>\<open>s.split(c)\<close> for a one-character separator: the result is never empty.\<close>

fun str_split :: "char \<Rightarrow> string \<Rightarrow> string list" where
  "str_split c [] = [[]]"
| "str_split c (x # xs) =
     (if x = c then [] # str_split c xs
      else (case str_split c xs of
              [] \<Rightarrow> [[x]]
            | p # ps \<Rightarrow> (x # p) # ps))"

definition startswith :: "string \<Rightarrow> string \<Rightarrow> bool" where
  "startswith s prefix = (take (length prefix) s = prefix)"

text \<open>
  \<open>str(n)\<close> for an \<open>int\<close>: decimal digits, with a minus sign below zero.
  \<open>digit_char\<close> is only applied to numbers below ten.
\<close>

definition digit_char :: "nat \<Rightarrow> char" where
  "digit_char d = ''0123456789'' ! d"

function str_nat :: "nat \<Rightarrow> string" where
  "str_nat n = (if n < 10 then [digit_char n] else str_nat (n div 10) @ [digit_char (n mod 10)])"
  by pat_completeness auto
termination
  by (relation "measure (\<lambda>n. n)") auto

declare str_nat.simps [simp del]

definition str_int :: "int \<Rightarrow> string" where
  "str_int i = (if i < 0 then CHR ''-'' # str_nat (nat (- i)) else str_nat (nat i))"

text \<open>\<open>str(v)\<close>, the conversion \<open>map(str, row)\<close> applies to every value of a row.\<close>

fun str_scalar :: "scalar \<Rightarrow> string" where
  "str_scalar SNone = ''None''"
| "str_scalar (SBool b) = (if b then ''True'' else ''False'')"
| "str_scalar (SInt i) = str_int i"
| "str_scalar (SStr s) = s"

text \<open>Truth value of a scalar, as \<open>if v\<close> and \<open>x and y\<close> test it.\<close>

fun truthy :: "scalar \<Rightarrow> bool" where
  "truthy SNone = False"
| "truthy (SBool b) = b"
| "truthy (SInt i) = (i \<noteq> 0)"
| "truthy (SStr s) = (s \<noteq> [])"

fun type_name :: "scalar \<Rightarrow> string" where
  "type_name SNone = ''NoneType''"
| "type_name (SBool b) = ''bool''"
| "type_name (SInt i) = ''int''"
| "type_name (SStr s) = ''str''"

section \<open>The identifier check (server.py, lines 223-224)\<close>

text \<open>
  \<open>is_valid_identifier(name)\<close> is \<open>bool(re.match(r'^[a-zA-Z_][a-zA-Z0-9_]*$', name))\<close>.
  The pattern is read with Python's \<open>re\<close> semantics: \<open>re.match\<close> starts at the first
  character, the classes hold ASCII letters, digits and the underscore, the star may stop
  anywhere, and \<open>$\<close> (no MULTILINE flag) holds at the end of the text and also just
  before a line feed that is the last character of the text.
\<close>

definition is_head_char :: "char \<Rightarrow> bool" where
  "is_head_char c =
     ((CHR ''a'' \<le> c \<and> c \<le> CHR ''z'') \<or> (CHR ''A'' \<le> c \<and> c \<le> CHR ''Z'') \<or> c = CHR ''_'')"

definition is_body_char :: "char \<Rightarrow> bool" where
  "is_body_char c =
     ((CHR ''a'' \<le> c \<and> c \<le> CHR ''z'') \<or> (CHR ''A'' \<le> c \<and> c \<le> CHR ''Z'')
      \<or> (CHR ''0'' \<le> c \<and> c \<le> CHR ''9'') \<or> c = CHR ''_'')"

definition at_dollar :: "string \<Rightarrow> bool" where
  "at_dollar rest = (rest = [] \<or> rest = [newline])"

text \<open>\<open>[a-zA-Z0-9_]*$\<close> against the rest of the text: stop here, or take one more character.\<close>

fun match_body_star_dollar :: "string \<Rightarrow> bool" where
  "match_body_star_dollar [] = at_dollar []"
| "match_body_star_dollar (c # cs) =
     (at_dollar (c # cs) \<or> (is_body_char c \<and> match_body_star_dollar cs))"

definition re_match_identifier :: "string \<Rightarrow> bool" where
  "re_match_identifier s =
     (case s of [] \<Rightarrow> False | c # cs \<Rightarrow> is_head_char c \<and> match_body_star_dollar cs)"

definition is_valid_identifier :: "string \<Rightarrow> bool" where
  "is_valid_identifier name = re_match_identifier name"

text \<open>
  The identifier of the specification, following its words: a bare name, that is a first
  character out of \<open>[A-Za-z_]\<close> followed only by characters out of \<open>[A-Za-z0-9_]\<close>, up to
  the end of the text.
\<close>

definition bare_identifier :: "string \<Rightarrow> bool" where
  "bare_identifier s =
     (case s of [] \<Rightarrow> False | c # cs \<Rightarrow> is_head_char c \<and> list_all is_body_char cs)"

section \<open>The warehouse driver\<close>

text \<open>
  \<open>redshift_connector\<close> is not part of the repository.  A \<open>driver\<close> fixes what each of its
  calls does during one request: \<open>None\<close> (or \<open>Inr\<close>) for a call that comes back, an
  exception for one that raises.  \<open>connect\<close> covers the whole call of lines 89-95 and
  197-203, the conversion \<open>int(config['port'])\<close> of its argument included.  A request
  runs at most one statement, so what the cursor holds afterwards is a function of the
  statement and its parameters.  Of \<open>cursor.description\<close> only the column names
  (\<open>desc[0]\<close>) are kept.
\<close>

record cursor_result =
  description :: "string list option"
  fetchall :: "exn + scalar list list"
  fetchone :: "exn + scalar list option"

record driver =
  connect :: "exn option"
  autocommit :: "exn option"
  cursor :: "exn option"
  execute :: "string \<Rightarrow> scalar list \<Rightarrow> exn + cursor_result"
  cursor_exit :: "exn option"
  close :: "exn option"

text \<open>The calls a request makes on the driver, in order: the log a fake connection keeps.\<close>

datatype event =
    Connect
  | SetAutocommit
  | Cursor
  | Execute string "scalar list"
  | Fetchall
  | Fetchone
  | CursorExit
  | Close

type_synonym 'a outcome = "(exn + 'a) \<times> event list"

text \<open>
  \<open>with conn.cursor() as cursor: body\<close>.  If \<open>conn.cursor()\<close> raises, the body does not
  run.  Otherwise the cursor is left through \<open>__exit__\<close> whether the body returned or
  raised; an exception of \<open>__exit__\<close> replaces the body's result.
\<close>

definition with_cursor :: "driver \<Rightarrow> 'a outcome \<Rightarrow> 'a outcome" where
  "with_cursor drv body =
     (case cursor drv of
        Some e \<Rightarrow> (Inl e, [Cursor])
      | None \<Rightarrow>
          (case cursor_exit drv of
             Some e \<Rightarrow> (Inl e, Cursor # snd body @ [CursorExit])
           | None \<Rightarrow> (fst body, Cursor # snd body @ [CursorExit])))"

text \<open>
  The \<open>try\<close> / \<open>except Exception\<close> / \<open>finally\<close> frame shared by \<open>read_resource\<close> (lines
  88-96, 115-118) and \<open>call_tool\<close> (lines 196-204, 218-221).  \<open>conn\<close> is bound only when
  \<open>connect\<close> comes back; the \<open>finally\<close> clause reads it in every case, so after a failed
  \<open>connect\<close> it raises \<open>UnboundLocalError\<close>, which replaces what the handler produced.
\<close>

definition unbound_local :: "string \<Rightarrow> exn" where
  "unbound_local v =
     UnboundLocalError (''cannot access local variable '' @ [CHR 0x27] @ v @ [CHR 0x27]
                        @ '' where it is not associated with a value'')"

definition unbound_conn :: exn where
  "unbound_conn = unbound_local ''conn''"

definition try_connection :: "driver \<Rightarrow> 'a outcome \<Rightarrow> (exn \<Rightarrow> exn + 'a) \<Rightarrow> 'a outcome" where
  "try_connection drv body handler =
     (let tried =
            (case connect drv of
               Some e \<Rightarrow> (Inl e, [Connect])
             | None \<Rightarrow>
                 (case autocommit drv of
                    Some e \<Rightarrow> (Inl e, [Connect, SetAutocommit])
                  | None \<Rightarrow> (fst body, Connect # SetAutocommit # snd body)));
          handled = (case fst tried of Inl e \<Rightarrow> handler e | Inr v \<Rightarrow> Inr v)
      in (case connect drv of
            Some e \<Rightarrow> (Inl unbound_conn, snd tried)
          | None \<Rightarrow>
              (case close drv of
                 Some e \<Rightarrow> (Inl e, snd tried @ [Close])
               | None \<Rightarrow> (handled, snd tried @ [Close]))))"

section \<open>The SQL helpers (server.py, lines 226-276)\<close>

text \<open>The statement texts of \<open>_get_schemas\<close> (lines 228-235) and \<open>_get_tables\<close> (lines 244-249).\<close>

definition schemas_sql :: string where
  "schemas_sql =
     ''\<newline>'' @
     ''        SELECT nspname AS schema_name\<newline>'' @
     ''        FROM pg_namespace\<newline>'' @
     ''        WHERE nspname NOT LIKE 'pg_%'\<newline>'' @
     ''            AND nspname != 'information_schema'\<newline>'' @
     ''            AND nspname != 'catalog_history'\<newline>'' @
     ''        ORDER BY schema_name\<newline>'' @
     ''   ''"

definition tables_sql :: string where
  "tables_sql =
     ''\<newline>'' @
     ''        SELECT table_name FROM information_schema.tables\<newline>'' @
     ''        WHERE table_schema = %s\<newline>'' @
     ''        GROUP BY table_name\<newline>'' @
     ''        ORDER BY table_name\<newline>'' @
     ''   ''"

text \<open>\<open>[row[0] for row in rows]\<close>: an empty row raises \<open>IndexError\<close>.\<close>

fun first_column :: "scalar list list \<Rightarrow> exn + scalar list" where
  "first_column [] = Inr []"
| "first_column (row # rows) =
     (case row of
        [] \<Rightarrow> Inl (IndexError ''list index out of range'')
      | v # _ \<Rightarrow> (case first_column rows of Inl e \<Rightarrow> Inl e | Inr vs \<Rightarrow> Inr (v # vs)))"

text \<open>
  \<open>"\n".join(xs)\<close> for the values of a column: \<open>join\<close> raises \<open>TypeError\<close> at the first
  item that is not a \<open>str\<close>.
\<close>

fun str_items :: "nat \<Rightarrow> scalar list \<Rightarrow> exn + string list" where
  "str_items i [] = Inr []"
| "str_items i (v # vs) =
     (case v of
        SStr s \<Rightarrow> (case str_items (Suc i) vs of Inl e \<Rightarrow> Inl e | Inr ss \<Rightarrow> Inr (s # ss))
      | _ \<Rightarrow>
          Inl (TypeError (''sequence item '' @ str_nat i @ '': expected str instance, ''
                          @ type_name v @ '' found'')))"

definition join_lines :: "scalar list \<Rightarrow> exn + string" where
  "join_lines vs =
     (case str_items 0 vs of Inl e \<Rightarrow> Inl e | Inr ss \<Rightarrow> Inr (str_join [newline] ss))"

text \<open>Lines 238-240 and 252-254: fetch all rows, take the first column, join by line feeds.\<close>

definition fetch_names :: "cursor_result \<Rightarrow> exn + string" where
  "fetch_names cur =
     (case fetchall cur of
        Inl e \<Rightarrow> Inl e
      | Inr rows \<Rightarrow> (case first_column rows of Inl e \<Rightarrow> Inl e | Inr names \<Rightarrow> join_lines names))"

definition get_schemas :: "driver \<Rightarrow> string outcome" where
  "get_schemas drv =
     with_cursor drv
       (case execute drv schemas_sql [] of
          Inl e \<Rightarrow> (Inl e, [Execute schemas_sql []])
        | Inr cur \<Rightarrow> (fetch_names cur, [Execute schemas_sql [], Fetchall]))"

definition get_tables :: "driver \<Rightarrow> string \<Rightarrow> string outcome" where
  "get_tables drv schema =
     with_cursor drv
       (case execute drv tables_sql [SStr schema] of
          Inl e \<Rightarrow> (Inl e, [Execute tables_sql [SStr schema]])
        | Inr cur \<Rightarrow> (fetch_names cur, [Execute tables_sql [SStr schema], Fetchall]))"

definition invalid_name :: "string \<Rightarrow> string \<Rightarrow> exn" where
  "invalid_name schema table =
     ValueError (''Invalid schema or table name: '' @ schema @ ''.'' @ table)"

text \<open>Line 266: \<open>ddl[0] if ddl and ddl[0] else f"No DDL found for {schema}.{table}"\<close>.\<close>

definition ddl_text :: "scalar list option \<Rightarrow> string \<Rightarrow> string \<Rightarrow> scalar" where
  "ddl_text ddl schema table =
     (case ddl of
        Some (v # _) \<Rightarrow>
          (if truthy v then v else SStr (''No DDL found for '' @ schema @ ''.'' @ table))
      | _ \<Rightarrow> SStr (''No DDL found for '' @ schema @ ''.'' @ table))"

definition get_table_ddl :: "driver \<Rightarrow> string \<Rightarrow> string \<Rightarrow> scalar outcome" where
  "get_table_ddl drv schema table =
     (if \<not> is_valid_identifier schema \<or> \<not> is_valid_identifier table
      then (Inl (invalid_name schema table), [])
      else
        with_cursor drv
          (let stmt = ''show table '' @ schema @ ''.'' @ table in
           case execute drv stmt [] of
             Inl e \<Rightarrow> (Inl e, [Execute stmt []])
           | Inr cur \<Rightarrow>
               (case fetchone cur of
                  Inl e \<Rightarrow> (Inl e, [Execute stmt [], Fetchone])
                | Inr ddl \<Rightarrow> (Inr (ddl_text ddl schema table), [Execute stmt [], Fetchone]))))"

definition get_table_statistic :: "driver \<Rightarrow> string \<Rightarrow> string \<Rightarrow> string outcome" where
  "get_table_statistic drv schema table =
     (if \<not> is_valid_identifier schema \<or> \<not> is_valid_identifier table
      then (Inl (invalid_name schema table), [])
      else
        with_cursor drv
          (let stmt = ''ANALYZE '' @ schema @ ''.'' @ table @ '';'' in
           case execute drv stmt [] of
             Inl e \<Rightarrow> (Inl e, [Execute stmt []])
           | Inr cur \<Rightarrow>
               (Inr (''ANALYZE '' @ schema @ ''.'' @ table @ '' command executed''),
                [Execute stmt []])))"

section \<open>Reading a resource (server.py, lines 79-118)\<close>

definition rs_scheme :: string where
  "rs_scheme = ''rs://''"

definition as_text :: "string outcome \<Rightarrow> scalar outcome" where
  "as_text r = (case fst r of Inl e \<Rightarrow> Inl e | Inr s \<Rightarrow> Inr (SStr s), snd r)"

text \<open>
  Lines 98-113, the dispatch on the path.  \<open>path_parts\<close> is never empty, so
  \<open>path_parts[0]\<close> is always there.  When no branch is taken the function runs off its
  end and the caller gets \<open>None\<close>.
\<close>

definition route :: "driver \<Rightarrow> string \<Rightarrow> scalar outcome" where
  "route drv uri_str =
     (let path_parts = str_split (CHR ''/'') (drop 6 uri_str) in
      case path_parts of
        [] \<Rightarrow> (Inl (IndexError ''list index out of range''), [])
      | p0 # _ \<Rightarrow>
          if p0 = ''schemas'' then as_text (get_schemas drv)
          else if length path_parts = 2 \<and> path_parts ! 1 = ''tables''
            then as_text (get_tables drv (path_parts ! 0))
          else if length path_parts = 3 \<and> path_parts ! 2 = ''ddl''
            then get_table_ddl drv (path_parts ! 0) (path_parts ! 1)
          else if length path_parts = 3 \<and> path_parts ! 2 = ''statistic''
            then as_text (get_table_statistic drv (path_parts ! 0) (path_parts ! 1))
          else (Inr SNone, []))"

definition read_resource :: "driver \<Rightarrow> string \<Rightarrow> scalar outcome" where
  "read_resource drv uri_str =
     (if \<not> startswith uri_str rs_scheme
      then (Inl (ValueError (''Invalid URI schema: '' @ uri_str)), [])
      else try_connection drv (route drv uri_str)
             (\<lambda>e. Inl (RuntimeError (''Redshift Error: '' @ str_exn e))))"

section \<open>Calling a tool (server.py, lines 174-221)\<close>

text \<open>
  The arguments are a dictionary from names to texts (every declared argument is of type
  \<open>string\<close>).  \<open>args.get(k)\<close> is \<open>None\<close> for a missing key, and \<open>not v\<close> holds for
  \<open>None\<close> and for the empty text.
\<close>

datatype text_content = TextContent (content_type: string) (content_text: string)

definition falsy :: "string option \<Rightarrow> bool" where
  "falsy v = (case v of None \<Rightarrow> True | Some s \<Rightarrow> s = [])"

definition str_arg :: "string option \<Rightarrow> string" where
  "str_arg v = (case v of None \<Rightarrow> ''None'' | Some s \<Rightarrow> s)"

text \<open>
  The local variables after lines 178-194.  \<open>schema\<close> and \<open>table\<close> are bound only in the
  \<open>analyze_table\<close> branch; for any other name they stay unbound (\<open>None\<close> here).
\<close>

record tool_locals =
  sql :: string
  schema :: "string option"
  table :: "string option"

definition resolve_sql :: "string \<Rightarrow> (string \<rightharpoonup> string) \<Rightarrow> exn + tool_locals" where
  "resolve_sql name args =
     (if name = ''execute_sql'' then
        (if falsy (args ''sql'')
         then Inl (ValueError ''sql parameter is required when calling execute_sql tool'')
         else Inr \<lparr>sql = str_arg (args ''sql''), schema = None, table = None\<rparr>)
      else if name = ''analyze_table'' then
        (if \<not> (\<not> falsy (args ''schema'') \<and> \<not> falsy (args ''table''))
         then Inl (ValueError
                ([CHR 0x27] @ ''schema' and 'table' parameters are required when calling analyze_table tool''))
         else Inr \<lparr>sql = ''ANALYZE '' @ str_arg (args ''schema'') @ ''.'' @ str_arg (args ''table''),
                   schema = args ''schema'', table = args ''table''\<rparr>)
      else if name = ''get_execution_plan'' then
        (if falsy (args ''sql'')
         then Inl (ValueError ''sql parameter is required when calling get_query_plan tool'')
         else Inr \<lparr>sql = ''EXPLAIN '' @ str_arg (args ''sql''), schema = None, table = None\<rparr>)
      else Inr \<lparr>sql = [], schema = None, table = None\<rparr>)"

text \<open>
  Lines 214-217, the result serializer: the column names joined by commas, then one line
  per row with \<open>str\<close> of every value joined by commas, all joined by line feeds.
\<close>

definition serialize_rows :: "string list \<Rightarrow> scalar list list \<Rightarrow> string" where
  "serialize_rows columns rows =
     str_join [newline]
       (str_join '','' columns # map (\<lambda>row. str_join '','' (map str_scalar row)) rows)"

text \<open>Lines 207-217, the body of the \<open>with\<close> block.\<close>

definition tool_body :: "driver \<Rightarrow> string \<Rightarrow> tool_locals \<Rightarrow> text_content list outcome" where
  "tool_body drv name loc =
     (case execute drv (sql loc) [] of
        Inl e \<Rightarrow> (Inl e, [Execute (sql loc) []])
      | Inr cur \<Rightarrow>
          if name = ''analyze_table'' then
            (case schema loc of
               None \<Rightarrow> (Inl (unbound_local ''schema''), [Execute (sql loc) []])
             | Some s \<Rightarrow>
                 (case table loc of
                    None \<Rightarrow> (Inl (unbound_local ''table''), [Execute (sql loc) []])
                  | Some t \<Rightarrow>
                      (Inr [TextContent ''text'' (''Successfully analyzed table '' @ s @ ''.'' @ t)],
                       [Execute (sql loc) []])))
          else
            (case description cur of
               None \<Rightarrow>
                 (Inr [TextContent ''text'' (''Successfully execute sql '' @ sql loc)],
                  [Execute (sql loc) []])
             | Some columns \<Rightarrow>
                 (case fetchall cur of
                    Inl e \<Rightarrow> (Inl e, [Execute (sql loc) [], Fetchall])
                  | Inr rows \<Rightarrow>
                      (Inr [TextContent ''text'' (serialize_rows columns rows)],
                       [Execute (sql loc) [], Fetchall]))))"

definition error_content :: "exn \<Rightarrow> text_content list" where
  "error_content e = [TextContent ''text'' (''Error executing query: '' @ str_exn e)]"

definition call_tool :: "driver \<Rightarrow> string \<Rightarrow> (string \<rightharpoonup> string) \<Rightarrow> text_content list outcome" where
  "call_tool drv name args =
     (case resolve_sql name args of
        Inl e \<Rightarrow> (Inl e, [])
      | Inr loc \<Rightarrow>
          try_connection drv (with_cursor drv (tool_body drv name loc))
            (\<lambda>e. Inr (error_content e)))"

section \<open>The schema statement and fake drivers\<close>

text \<open>
  What the statement of \<open>_get_schemas\<close> (lines 229-234) selects from the column
  \<open>nspname\<close> of \<open>pg_namespace\<close>: the names that are not \<open>LIKE 'pg_%'\<close> and differ from
  \<open>information_schema\<close> and \<open>catalog_history\<close>, in ascending order.  In a \<open>LIKE\<close>
  pattern \<open>%\<close> stands for any run of characters and \<open>_\<close> for any one character; names are
  compared and ordered character by character.
\<close>

fun sql_like :: "string \<Rightarrow> string \<Rightarrow> bool" where
  "sql_like [] s = (s = [])"
| "sql_like (p # ps) [] = (p = CHR ''%'' \<and> sql_like ps [])"
| "sql_like (p # ps) (c # cs) =
     (if p = CHR ''%'' then sql_like ps (c # cs) \<or> sql_like (p # ps) cs
      else (p = CHR ''_'' \<or> p = c) \<and> sql_like ps cs)"

definition schema_selected :: "string \<Rightarrow> bool" where
  "schema_selected nspname =
     (\<not> sql_like ''pg_%'' nspname \<and> nspname \<noteq> ''information_schema''
      \<and> nspname \<noteq> ''catalog_history'')"

definition schemas_query :: "string list \<Rightarrow> string list" where
  "schemas_query nspnames = sort (filter schema_selected nspnames)"

text \<open>
  Fake drivers, as a test would set them up: one on which every call comes back, one
  whose \<open>connect\<close> raises, and a warehouse that answers the schema statement from its
  list of namespaces.
\<close>

definition empty_cursor :: cursor_result where
  "empty_cursor = \<lparr>description = None, fetchall = Inr [], fetchone = Inr None\<rparr>"

definition table_cursor :: "string list \<Rightarrow> scalar list list \<Rightarrow> cursor_result" where
  "table_cursor columns rows =
     \<lparr>description = Some columns, fetchall = Inr rows,
      fetchone = Inr (case rows of [] \<Rightarrow> None | r # _ \<Rightarrow> Some r)\<rparr>"

definition fake_driver :: "(string \<Rightarrow> scalar list \<Rightarrow> exn + cursor_result) \<Rightarrow> driver" where
  "fake_driver ex =
     \<lparr>connect = None, autocommit = None, cursor = None, execute = ex,
      cursor_exit = None, close = None\<rparr>"

definition unreachable_driver :: driver where
  "unreachable_driver =
     \<lparr>connect = Some (DriverError ''connection refused''), autocommit = None, cursor = None,
      execute = (\<lambda>stmt params. Inr empty_cursor), cursor_exit = None, close = None\<rparr>"

definition warehouse :: "string list \<Rightarrow> driver" where
  "warehouse nspnames =
     fake_driver (\<lambda>stmt params.
       if stmt = schemas_sql \<and> params = []
       then Inr (table_cursor [''schema_name''] (map (\<lambda>n. [SStr n]) (schemas_query nspnames)))
       else Inr empty_cursor)"

section \<open>A warehouse that runs the statement text\<close>

text \<open>
  To say what the schema listing returns, the statement text that \<open>_get_schemas\<close>
  sends has to be run.  The warehouse is not part of the repository; its part is taken by
  an evaluator for the fragment of SQL the statement is written in:
  \<open>SELECT column AS alias FROM table\<close>, an optional \<open>WHERE\<close> with conditions
  \<open>column LIKE 'p'\<close>, \<open>column NOT LIKE 'p'\<close>, \<open>column = 'v'\<close>, \<open>column != 'v'\<close> joined
  by \<open>AND\<close>, and an optional \<open>ORDER BY\<close> on the alias or the column.  Words are
  separated by blanks, tabs and line feeds, key words are written in capitals, and a
  literal is one word between single quotes.  Any other text is not answered.
\<close>

definition is_space :: "char \<Rightarrow> bool" where
  "is_space c = (c = CHR '' '' \<or> c = newline \<or> c = CHR 0x09)"

fun sql_words :: "string \<Rightarrow> string \<Rightarrow> string list" where
  "sql_words w [] = (if w = [] then [] else [w])"
| "sql_words w (c # cs) =
     (if is_space c then (if w = [] then sql_words [] cs else w # sql_words [] cs)
      else sql_words (w @ [c]) cs)"

fun join_not_like :: "string list \<Rightarrow> string list" where
  "join_not_like (a # b # ts) =
     (if a = ''NOT'' \<and> b = ''LIKE'' then ''NOT LIKE'' # join_not_like ts
      else a # join_not_like (b # ts))"
| "join_not_like ts = ts"

definition unquote :: "string \<Rightarrow> string option" where
  "unquote w =
     (case w of
        [] \<Rightarrow> None
      | q # rest \<Rightarrow>
          if q = CHR 0x27 \<and> rest \<noteq> [] \<and> last rest = CHR 0x27 \<and> CHR 0x27 \<notin> set (butlast rest)
          then Some (butlast rest) else None)"

datatype cond =
    Like string string
  | NotLike string string
  | Equals string string
  | Differs string string

fun cond_column :: "cond \<Rightarrow> string" where
  "cond_column (Like c p) = c"
| "cond_column (NotLike c p) = c"
| "cond_column (Equals c v) = c"
| "cond_column (Differs c v) = c"

definition mk_cond :: "string \<Rightarrow> string \<Rightarrow> string \<Rightarrow> cond option" where
  "mk_cond col oper lit =
     (case unquote lit of
        None \<Rightarrow> None
      | Some v \<Rightarrow>
          if oper = ''LIKE'' then Some (Like col v)
          else if oper = ''NOT LIKE'' then Some (NotLike col v)
          else if oper = ''='' then Some (Equals col v)
          else if oper = ''!='' then Some (Differs col v)
          else None)"

fun parse_conds :: "string list \<Rightarrow> (cond list \<times> string list) option" where
  "parse_conds (col # oper # lit # rest) =
     (case mk_cond col oper lit of
        None \<Rightarrow> None
      | Some c \<Rightarrow>
          (case rest of
             [] \<Rightarrow> Some ([c], [])
           | k # rest' \<Rightarrow>
               if k = ''AND''
               then (case parse_conds rest' of
                       None \<Rightarrow> None
                     | Some (cs, r) \<Rightarrow> Some (c # cs, r))
               else Some ([c], k # rest')))"
| "parse_conds ts = None"

definition parse_where :: "string list \<Rightarrow> (cond list \<times> string list) option" where
  "parse_where ts =
     (case ts of
        [] \<Rightarrow> Some ([], [])
      | k # r \<Rightarrow> if k = ''WHERE'' then parse_conds r else Some ([], k # r))"

definition parse_order :: "string list \<Rightarrow> string option option" where
  "parse_order ts =
     (case ts of
        [] \<Rightarrow> Some None
      | [o1, o2, k] \<Rightarrow> if o1 = ''ORDER'' \<and> o2 = ''BY'' then Some (Some k) else None
      | _ \<Rightarrow> None)"

record select_stmt =
  sel_column :: string
  sel_alias :: string
  sel_table :: string
  sel_where :: "cond list"
  sel_order :: "string option"

definition parse_select :: "string \<Rightarrow> select_stmt option" where
  "parse_select stmt =
     (case join_not_like (sql_words [] stmt) of
        k1 # col # k2 # alias # k3 # tbl # rest \<Rightarrow>
          if k1 = ''SELECT'' \<and> k2 = ''AS'' \<and> k3 = ''FROM'' then
            (case parse_where rest of
               None \<Rightarrow> None
             | Some (conds, rest') \<Rightarrow>
                 (case parse_order rest' of
                    None \<Rightarrow> None
                  | Some ord \<Rightarrow>
                      Some \<lparr>sel_column = col, sel_alias = alias, sel_table = tbl,
                            sel_where = conds, sel_order = ord\<rparr>))
          else None
      | _ \<Rightarrow> None)"

text \<open>
  A table has named columns and rows with one text per column; a database maps table
  names to tables.  Texts are compared character by character, and \<open>ORDER BY\<close> sorts
  ascending in that order; without it the rows come in the order of the table.
\<close>

record sql_table =
  table_columns :: "string list"
  table_rows :: "string list list"

definition col_index :: "string \<Rightarrow> string list \<Rightarrow> nat" where
  "col_index c cols = length (takeWhile (\<lambda>x. x \<noteq> c) cols)"

fun holds :: "sql_table \<Rightarrow> string list \<Rightarrow> cond \<Rightarrow> bool" where
  "holds t row (Like c p) = sql_like p (row ! col_index c (table_columns t))"
| "holds t row (NotLike c p) = (\<not> sql_like p (row ! col_index c (table_columns t)))"
| "holds t row (Equals c v) = (row ! col_index c (table_columns t) = v)"
| "holds t row (Differs c v) = (row ! col_index c (table_columns t) \<noteq> v)"

definition run_select :: "string \<Rightarrow> (string \<rightharpoonup> sql_table) \<Rightarrow> (string \<times> string list) option" where
  "run_select stmt db =
     (case parse_select stmt of
        None \<Rightarrow> None
      | Some q \<Rightarrow>
          (case db (sel_table q) of
             None \<Rightarrow> None
           | Some t \<Rightarrow>
               if sel_column q \<in> set (table_columns t)
                  \<and> list_all (\<lambda>c. cond_column c \<in> set (table_columns t)) (sel_where q)
               then
                 (let kept = filter (\<lambda>row. list_all (holds t row) (sel_where q)) (table_rows t);
                      vals = map (\<lambda>row. row ! col_index (sel_column q) (table_columns t)) kept
                  in case sel_order q of
                       None \<Rightarrow> Some (sel_alias q, vals)
                     | Some k \<Rightarrow>
                         if k = sel_alias q \<or> k = sel_column q
                         then Some (sel_alias q, sort vals) else None)
               else None))"

text \<open>The catalog table \<open>pg_namespace\<close>, seen through its column \<open>nspname\<close>.\<close>

definition namespaces :: "string list \<Rightarrow> (string \<rightharpoonup> sql_table)" where
  "namespaces nspnames =
     [''pg_namespace'' \<mapsto>
        \<lparr>table_columns = [''nspname''], table_rows = map (\<lambda>n. [n]) nspnames\<rparr>]"

text \<open>
  A driver on which every call comes back and whose cursor holds what the statement
  selects from the database; a statement outside the fragment, or one with parameters,
  makes \<open>execute\<close> raise.
\<close>

definition sql_warehouse :: "(string \<rightharpoonup> sql_table) \<Rightarrow> driver" where
  "sql_warehouse db =
     fake_driver (\<lambda>stmt params.
       if params \<noteq> [] then Inl (DriverError ''parameters are not supported'')
       else (case run_select stmt db of
               None \<Rightarrow> Inl (DriverError ''statement is not supported'')
             | Some (col, vals) \<Rightarrow> Inr (table_cursor [col] (map (\<lambda>v. [SStr v]) vals))))"

section \<open>The identifier check against the pattern of the specification\<close>

lemma newline_not_body: "\<not> is_body_char newline"
  by (simp add: is_body_char_def newline_def)

lemma newline_not_head: "\<not> is_head_char newline"
  by (simp add: is_head_char_def newline_def)

lemma match_body_star_dollar_iff:
  "match_body_star_dollar cs \<longleftrightarrow>
     list_all is_body_char cs \<or> (\<exists>t. cs = t @ [newline] \<and> list_all is_body_char t)"
proof (induction cs)
  case Nil
  show ?case by (simp add: at_dollar_def)
next
  case (Cons c cs)
  show ?case
  proof (cases "is_body_char c")
    case True
    then have "c \<noteq> newline" using newline_not_body by auto
    with True Cons show ?thesis
      by (auto simp: at_dollar_def Cons_eq_append_conv)
  next
    case False
    then show ?thesis
      by (auto simp: at_dollar_def Cons_eq_append_conv)
  qed
qed

text \<open>
  What the check accepts, for every text: the bare identifiers, and the bare identifiers
  followed by one line feed.
\<close>

lemma is_valid_identifier_iff:
  "is_valid_identifier s \<longleftrightarrow>
     bare_identifier s \<or> (\<exists>t. s = t @ [newline] \<and> bare_identifier t)"
proof (cases s)
  case Nil
  then show ?thesis
    by (simp add: is_valid_identifier_def re_match_identifier_def bare_identifier_def)
next
  case (Cons c cs)
  show ?thesis
  proof (cases "is_head_char c")
    case True
    then have "c \<noteq> newline" using newline_not_head by auto
    with True Cons show ?thesis
      by (auto simp: is_valid_identifier_def re_match_identifier_def bare_identifier_def
          match_body_star_dollar_iff Cons_eq_append_conv)
  next
    case False
    with Cons show ?thesis
      by (auto simp: is_valid_identifier_def re_match_identifier_def bare_identifier_def
          Cons_eq_append_conv)
  qed
qed

lemma bare_identifier_accepted: "bare_identifier s \<Longrightarrow> is_valid_identifier s"
  by (simp add: is_valid_identifier_iff)

text \<open>
  Claim C2: the identifier validator accepts a text if and only if it matches
  \<open>^[A-Za-z_][A-Za-z0-9_]*$\<close>.  Every bare identifier is accepted
  (\<open>bare_identifier_accepted\<close>), but the converse fails: \<open>abc\<close> followed by a line feed
  is not a bare identifier, and \<open>is_valid_identifier\<close> accepts it, because \<open>$\<close> of
  \<open>re.match\<close> also holds before a final line feed.
\<close>

theorem is_valid_identifier_trailing_newline:
  "is_valid_identifier ''abc\<newline>'' \<and> \<not> bare_identifier ''abc\<newline>''"
  by (simp add: is_valid_identifier_def re_match_identifier_def bare_identifier_def
      is_head_char_def is_body_char_def at_dollar_def newline_def)

section \<open>The connection is closed once\<close>

lemma with_cursor_events:
  "set (snd (with_cursor drv body)) \<subseteq> {Cursor, CursorExit} \<union> set (snd body)"
  by (auto simp: with_cursor_def split: option.splits)

lemma with_cursor_keeps_connection:
  assumes "Close \<notin> set (snd body)" and "Connect \<notin> set (snd body)"
  shows "Close \<notin> set (snd (with_cursor drv body)) \<and> Connect \<notin> set (snd (with_cursor drv body))"
  using assms with_cursor_events [of drv body] by auto

lemma get_schemas_keeps_connection:
  "Close \<notin> set (snd (get_schemas drv)) \<and> Connect \<notin> set (snd (get_schemas drv))"
  unfolding get_schemas_def
  by (rule with_cursor_keeps_connection) (auto split: sum.splits)

lemma get_tables_keeps_connection:
  "Close \<notin> set (snd (get_tables drv s)) \<and> Connect \<notin> set (snd (get_tables drv s))"
  unfolding get_tables_def
  by (rule with_cursor_keeps_connection) (auto split: sum.splits)

lemma get_table_ddl_keeps_connection:
  "Close \<notin> set (snd (get_table_ddl drv s t)) \<and> Connect \<notin> set (snd (get_table_ddl drv s t))"
proof (cases "\<not> is_valid_identifier s \<or> \<not> is_valid_identifier t")
  case True
  then show ?thesis by (auto simp: get_table_ddl_def)
next
  case False
  have "get_table_ddl drv s t =
    with_cursor drv
          (let stmt = ''show table '' @ s @ ''.'' @ t in
           case execute drv stmt [] of
             Inl e \<Rightarrow> (Inl e, [Execute stmt []])
           | Inr cur \<Rightarrow>
               (case fetchone cur of
                  Inl e \<Rightarrow> (Inl e, [Execute stmt [], Fetchone])
                | Inr ddl \<Rightarrow> (Inr (ddl_text ddl s t), [Execute stmt [], Fetchone])))"
    using False unfolding get_table_ddl_def by simp
  then show ?thesis
    by (simp only:) (rule with_cursor_keeps_connection; auto simp: Let_def split: sum.splits)
qed

lemma get_table_statistic_keeps_connection:
  "Close \<notin> set (snd (get_table_statistic drv s t))
   \<and> Connect \<notin> set (snd (get_table_statistic drv s t))"
proof (cases "\<not> is_valid_identifier s \<or> \<not> is_valid_identifier t")
  case True
  then show ?thesis by (auto simp: get_table_statistic_def)
next
  case False
  have "get_table_statistic drv s t =
        with_cursor drv
          (let stmt = ''ANALYZE '' @ s @ ''.'' @ t @ '';'' in
           case execute drv stmt [] of
             Inl e \<Rightarrow> (Inl e, [Execute stmt []])
           | Inr cur \<Rightarrow>
               (Inr (''ANALYZE '' @ s @ ''.'' @ t @ '' command executed''),
                [Execute stmt []]))"
    using False unfolding get_table_statistic_def by simp
  then show ?thesis
    by (simp only:) (rule with_cursor_keeps_connection; auto simp: Let_def split: sum.splits)
qed

lemma as_text_snd: "snd (as_text r) = snd r"
  by (simp add: as_text_def)

lemma route_keeps_connection:
  "Close \<notin> set (snd (route drv u)) \<and> Connect \<notin> set (snd (route drv u))"
  unfolding route_def Let_def
  by (simp add: as_text_snd get_schemas_keeps_connection get_tables_keeps_connection
      get_table_ddl_keeps_connection get_table_statistic_keeps_connection split: list.splits)

lemma tool_body_keeps_connection:
  "Close \<notin> set (snd (tool_body drv name loc)) \<and> Connect \<notin> set (snd (tool_body drv name loc))"
  by (auto simp: tool_body_def split: sum.splits option.splits)

lemma try_connection_closes_once:
  assumes "connect drv = None" and "Close \<notin> set (snd body)"
  shows "count_list (snd (try_connection drv body handler)) Close = 1
         \<and> last (snd (try_connection drv body handler)) = Close"
  using assms by (auto simp: try_connection_def Let_def split: option.splits)

text \<open>
  Claim C1: in every request (resource read or tool call) in which the connection was
  opened, \<open>close\<close> is called on it exactly once, as the last call before the request
  returns: on success, when an identifier is refused after the open, and when a call of
  the driver raises.
\<close>

theorem connection_closed_exactly_once:
  assumes "connect drv = None"
  shows "(Connect \<in> set (snd (read_resource drv uri_str)) \<longrightarrow>
            count_list (snd (read_resource drv uri_str)) Close = 1
            \<and> last (snd (read_resource drv uri_str)) = Close)
       \<and> (Connect \<in> set (snd (call_tool drv name args)) \<longrightarrow>
            count_list (snd (call_tool drv name args)) Close = 1
            \<and> last (snd (call_tool drv name args)) = Close)"
proof (intro conjI impI)
  assume opened: "Connect \<in> set (snd (read_resource drv uri_str))"
  then have "read_resource drv uri_str =
      try_connection drv (route drv uri_str)
        (\<lambda>e. Inl (RuntimeError (''Redshift Error: '' @ str_exn e)))"
    by (auto simp: read_resource_def split: if_splits)
  then show "count_list (snd (read_resource drv uri_str)) Close = 1"
    and "last (snd (read_resource drv uri_str)) = Close"
    using try_connection_closes_once [OF assms, of "route drv uri_str"] route_keeps_connection
    by auto
next
  assume opened: "Connect \<in> set (snd (call_tool drv name args))"
  then obtain loc where "call_tool drv name args =
      try_connection drv (with_cursor drv (tool_body drv name loc)) (\<lambda>e. Inr (error_content e))"
    by (auto simp: call_tool_def split: sum.splits)
  then show "count_list (snd (call_tool drv name args)) Close = 1"
    and "last (snd (call_tool drv name args)) = Close"
    using try_connection_closes_once [OF assms, of "with_cursor drv (tool_body drv name loc)"]
      with_cursor_keeps_connection [OF conjunct1 [OF tool_body_keeps_connection]
        conjunct2 [OF tool_body_keeps_connection]]
    by auto
qed

theorem connection_closed_exactly_once_witness:
  "connect (warehouse []) = None
   \<and> Connect \<in> set (snd (read_resource (warehouse []) ''rs:///my-schema/orders/ddl''))
   \<and> count_list (snd (read_resource (warehouse []) ''rs:///my-schema/orders/ddl'')) Close = 1
   \<and> last (snd (read_resource (warehouse []) ''rs:///my-schema/orders/ddl'')) = Close
   \<and> Connect \<in> set (snd (call_tool (warehouse []) ''execute_sql'' [''sql'' \<mapsto> ''select 1'']))
   \<and> count_list (snd (call_tool (warehouse []) ''execute_sql'' [''sql'' \<mapsto> ''select 1''])) Close = 1
   \<and> last (snd (call_tool (warehouse []) ''execute_sql'' [''sql'' \<mapsto> ''select 1''])) = Close"
proof -
  have c: "connect (warehouse []) = None"
    by (simp add: warehouse_def fake_driver_def)
  have r: "Connect \<in> set (snd (read_resource (warehouse []) ''rs:///my-schema/orders/ddl''))"
    by (simp add: read_resource_def startswith_def rs_scheme_def try_connection_def
        warehouse_def fake_driver_def)
  have t: "Connect \<in> set (snd (call_tool (warehouse []) ''execute_sql'' [''sql'' \<mapsto> ''select 1'']))"
    by (simp add: call_tool_def resolve_sql_def falsy_def try_connection_def
        warehouse_def fake_driver_def)
  show ?thesis
    using c r t
      connection_closed_exactly_once [OF c, of "''rs:///my-schema/orders/ddl''"
        "''execute_sql''" "[''sql'' \<mapsto> ''select 1'']"]
    by blast
qed

section \<open>Identifiers are checked after the connection is opened\<close>

lemma route_invalid:
  assumes parts: "str_split (CHR ''/'') (drop 6 uri_str) = [sch, tbl, kind]"
    and kind: "kind = ''ddl'' \<or> kind = ''statistic''"
    and other: "sch \<noteq> ''schemas''"
    and bad: "\<not> is_valid_identifier sch \<or> \<not> is_valid_identifier tbl"
  shows "route drv uri_str = (Inl (invalid_name sch tbl), [])"
  using assms
  by (auto simp: route_def get_table_ddl_def get_table_statistic_def as_text_def)

text \<open>
  Claim C3, as amended: a DDL or statistic read whose schema or table is refused by the
  identifier check always fails, and the only calls made on the driver are the open, the
  autocommit setting and the close, so no cursor is opened and no statement is sent.  The
  connection is opened before the check; when the three calls come back, the error is
  the \<open>RuntimeError\<close> that wraps the invalid-name message.  (The schema named
  \<open>schemas\<close> is left aside: that path is taken by the schema listing.)
\<close>

theorem invalid_identifier_refused_after_open:
  assumes scheme: "startswith uri_str rs_scheme"
    and parts: "str_split (CHR ''/'') (drop 6 uri_str) = [sch, tbl, kind]"
    and kind: "kind = ''ddl'' \<or> kind = ''statistic''"
    and other: "sch \<noteq> ''schemas''"
    and bad: "\<not> is_valid_identifier sch \<or> \<not> is_valid_identifier tbl"
  shows "(\<exists>e. fst (read_resource drv uri_str) = Inl e)
       \<and> list_all (\<lambda>ev. ev \<in> {Connect, SetAutocommit, Close}) (snd (read_resource drv uri_str))
       \<and> (connect drv = None \<and> autocommit drv = None \<and> close drv = None \<longrightarrow>
            read_resource drv uri_str =
              (Inl (RuntimeError (''Redshift Error: Invalid schema or table name: ''
                                  @ sch @ ''.'' @ tbl)),
               [Connect, SetAutocommit, Close]))"
proof -
  have r: "read_resource drv uri_str =
      try_connection drv (Inl (invalid_name sch tbl), [])
        (\<lambda>e. Inl (RuntimeError (''Redshift Error: '' @ str_exn e)))"
    using scheme route_invalid [OF parts kind other bad] by (simp add: read_resource_def)
  show ?thesis
    unfolding r
    by (auto simp: try_connection_def Let_def invalid_name_def split: option.splits)
qed

theorem invalid_identifier_refused_after_open_witness:
  "startswith ''rs:///my-schema/orders/ddl'' rs_scheme
   \<and> str_split (CHR ''/'') (drop 6 ''rs:///my-schema/orders/ddl'') = [''my-schema'', ''orders'', ''ddl'']
   \<and> \<not> is_valid_identifier ''my-schema''
   \<and> read_resource (warehouse []) ''rs:///my-schema/orders/ddl'' =
        (Inl (RuntimeError ''Redshift Error: Invalid schema or table name: my-schema.orders''),
         [Connect, SetAutocommit, Close])"
proof -
  have s: "startswith ''rs:///my-schema/orders/ddl'' rs_scheme"
    by (simp add: startswith_def rs_scheme_def)
  have p: "str_split (CHR ''/'') (drop 6 ''rs:///my-schema/orders/ddl'')
           = [''my-schema'', ''orders'', ''ddl'']"
    by simp
  have b: "\<not> is_valid_identifier ''my-schema''"
    by (simp add: is_valid_identifier_def re_match_identifier_def is_head_char_def
        is_body_char_def at_dollar_def newline_def)
  have d: "connect (warehouse []) = None \<and> autocommit (warehouse []) = None
           \<and> close (warehouse []) = None"
    by (simp add: warehouse_def fake_driver_def)
  show ?thesis
    using s p b d
      invalid_identifier_refused_after_open [OF s p, of "warehouse []"]
    by simp
qed

text \<open>
  Claim C3 as stated (no connection is ever opened) fails: for the refused schema
  \<open>my-schema\<close> the read opens the connection.
\<close>

theorem invalid_identifier_opens_connection:
  "\<not> is_valid_identifier ''my-schema''
   \<and> Connect \<in> set (snd (read_resource (warehouse []) ''rs:///my-schema/orders/ddl''))"
  by (simp add: is_valid_identifier_def re_match_identifier_def is_head_char_def
        is_body_char_def at_dollar_def newline_def
        read_resource_def startswith_def rs_scheme_def try_connection_def
        warehouse_def fake_driver_def)


section \<open>Routing of resource paths\<close>

text \<open>
  A path that no branch of lines 100-113 takes gives no text: the read returns \<open>None\<close>.
\<close>

lemma route_falls_through:
  assumes "str_split (CHR ''/'') (drop 6 uri_str) = p0 # ps"
    and "p0 \<noteq> ''schemas''"
    and "\<not> (length ps = 1 \<and> ps ! 0 = ''tables'')"
    and "\<not> (length ps = 2 \<and> (ps ! 1 = ''ddl'' \<or> ps ! 1 = ''statistic''))"
  shows "route drv uri_str = (Inr SNone, [])"
  using assms by (auto simp: route_def)

lemma read_resource_falls_through:
  assumes "startswith uri_str rs_scheme"
    and "str_split (CHR ''/'') (drop 6 uri_str) = p0 # ps"
    and "p0 \<noteq> ''schemas''"
    and "\<not> (length ps = 1 \<and> ps ! 0 = ''tables'')"
    and "\<not> (length ps = 2 \<and> (ps ! 1 = ''ddl'' \<or> ps ! 1 = ''statistic''))"
    and "connect drv = None" and "autocommit drv = None" and "close drv = None"
  shows "read_resource drv uri_str = (Inr SNone, [Connect, SetAutocommit, Close])"
  using assms route_falls_through [of uri_str p0 ps drv]
  by (simp add: read_resource_def try_connection_def)

text \<open>
  Claim C4: a path that is not exactly one of the four declared shapes gives no result
  text.  That holds for the paths no branch takes (\<open>read_resource_falls_through\<close>), but
  the first branch (line 100) tests only \<open>path_parts[0]\<close>, without the length test its
  sibling branches have: the two-part path \<open>schemas/x\<close> is answered with the schema
  listing.
\<close>

theorem schemas_prefix_read_succeeds:
  "startswith ''rs:///schemas/x'' rs_scheme
   \<and> str_split (CHR ''/'') (drop 6 ''rs:///schemas/x'') = [''schemas'', ''x'']
   \<and> fst (read_resource (warehouse [''public'', ''finance'']) ''rs:///schemas/x'')
       = Inr (SStr ''finance\<newline>public'')"
  by (simp add: startswith_def rs_scheme_def read_resource_def try_connection_def route_def
      as_text_def get_schemas_def with_cursor_def warehouse_def fake_driver_def
      table_cursor_def fetch_names_def join_lines_def schemas_query_def schema_selected_def
      newline_def)

section \<open>Failures of a tool call\<close>

text \<open>
  Once the arguments are accepted and the connection opens and closes, every failure in
  between comes back as one text item.
\<close>

lemma call_tool_softens_failures:
  assumes "resolve_sql name args = Inr loc" and "connect drv = None" and "close drv = None"
  shows "\<exists>t. fst (call_tool drv name args) = Inr [TextContent ''text'' t]"
  using assms
  by (auto simp: call_tool_def try_connection_def Let_def with_cursor_def tool_body_def
      error_content_def split: option.splits sum.splits)

text \<open>
  Claim C8: every exception raised while the connection is opened, the statement runs or
  the result is serialized comes back as a text item, and the tool call does not raise.
  For a failing \<open>connect\<close> this does not hold: the handler builds the text, but the
  \<open>finally\<close> clause then reads \<open>conn\<close>, which was never bound, and the call raises
  \<open>UnboundLocalError\<close>.
\<close>

theorem call_tool_raises_when_connect_fails:
  "call_tool unreachable_driver ''execute_sql'' [''sql'' \<mapsto> ''select 1'']
     = (Inl unbound_conn, [Connect])"
  by (simp add: call_tool_def resolve_sql_def falsy_def try_connection_def
      unreachable_driver_def)

text \<open>
  Claim C9: an \<open>execute_sql\<close> call whose \<open>sql\<close> argument is missing or empty fails
  with the error of line 183, and no call is made on the driver.
\<close>

theorem execute_sql_requires_sql:
  assumes "args ''sql'' = None \<or> args ''sql'' = Some []"
  shows "call_tool drv ''execute_sql'' args =
           (Inl (ValueError ''sql parameter is required when calling execute_sql tool''), [])"
  using assms by (auto simp: call_tool_def resolve_sql_def falsy_def)

theorem execute_sql_requires_sql_witness:
  "call_tool (warehouse []) ''execute_sql'' [''sql'' \<mapsto> ''''] =
     (Inl (ValueError ''sql parameter is required when calling execute_sql tool''), [])
   \<and> call_tool (warehouse []) ''execute_sql'' Map.empty =
     (Inl (ValueError ''sql parameter is required when calling execute_sql tool''), [])"
  using execute_sql_requires_sql [of "[''sql'' \<mapsto> '''']" "warehouse []"]
    execute_sql_requires_sql [of Map.empty "warehouse []"]
  by simp

section \<open>Tool names outside the three declared ones\<close>

text \<open>
  An unknown name is neither validated nor refused: \<open>sql\<close> keeps its initial value, the
  empty text, and that is the statement run when the connection opens.
\<close>

lemma unknown_tool_not_validated:
  assumes "name \<noteq> ''execute_sql''" and "name \<noteq> ''analyze_table''"
    and "name \<noteq> ''get_execution_plan''"
  shows "resolve_sql name args = Inr \<lparr>sql = [], schema = None, table = None\<rparr>"
  using assms by (simp add: resolve_sql_def)

lemma unknown_tool_runs_empty_statement:
  assumes "name \<noteq> ''execute_sql''" and "name \<noteq> ''analyze_table''"
    and "name \<noteq> ''get_execution_plan''"
    and "connect drv = None" and "autocommit drv = None" and "cursor drv = None"
    and "cursor_exit drv = None" and "close drv = None"
    and "execute drv [] [] = Inr cur" and "description cur = None"
  shows "call_tool drv name args =
           (Inr [TextContent ''text'' ''Successfully execute sql ''],
            [Connect, SetAutocommit, Cursor, Execute [] [], CursorExit, Close])"
  using assms
  by (simp add: call_tool_def unknown_tool_not_validated try_connection_def with_cursor_def
      tool_body_def)

text \<open>
  Claim C10: for an unknown tool name the caller receives an error text or the generic
  success text.  With a warehouse that cannot be reached the call raises
  \<open>UnboundLocalError\<close> instead, by the \<open>finally\<close> clause that reads the unbound
  \<open>conn\<close>.
\<close>

theorem unknown_tool_raises_when_connect_fails:
  "call_tool unreachable_driver ''list_tables'' Map.empty = (Inl unbound_conn, [Connect])"
  by (simp add: call_tool_def resolve_sql_def try_connection_def unreachable_driver_def)

section \<open>The analyze-table tool\<close>

text \<open>
  Claim C6: for non-empty \<open>schema\<close> and \<open>table\<close> arguments, whatever characters they
  hold, the call runs exactly \<open>ANALYZE {schema}.{table}\<close> and, when the driver calls
  come back, returns the confirmation naming \<open>{schema}.{table}\<close>, whatever the cursor
  holds afterwards.
\<close>

theorem analyze_table_confirms:
  assumes "args ''schema'' = Some s" and "args ''table'' = Some t"
    and "s \<noteq> []" and "t \<noteq> []"
    and "connect drv = None" and "autocommit drv = None" and "cursor drv = None"
    and "execute drv (''ANALYZE '' @ s @ ''.'' @ t) [] = Inr cur"
    and "cursor_exit drv = None" and "close drv = None"
  shows "call_tool drv ''analyze_table'' args =
           (Inr [TextContent ''text'' (''Successfully analyzed table '' @ s @ ''.'' @ t)],
            [Connect, SetAutocommit, Cursor, Execute (''ANALYZE '' @ s @ ''.'' @ t) [],
             CursorExit, Close])"
  using assms
  by (simp add: call_tool_def resolve_sql_def falsy_def str_arg_def try_connection_def
      with_cursor_def tool_body_def)

theorem analyze_table_confirms_witness:
  "call_tool (fake_driver (\<lambda>stmt params. Inr (table_cursor [''n''] [[SInt 7]])))
       ''analyze_table'' [''schema'' \<mapsto> ''sales'', ''table'' \<mapsto> ''orders''] =
     (Inr [TextContent ''text'' ''Successfully analyzed table sales.orders''],
      [Connect, SetAutocommit, Cursor, Execute ''ANALYZE sales.orders'' [], CursorExit, Close])"
  using analyze_table_confirms [of "[''schema'' \<mapsto> ''sales'', ''table'' \<mapsto> ''orders'']"
      "''sales''" "''orders''" "fake_driver (\<lambda>stmt params. Inr (table_cursor [''n''] [[SInt 7]]))"
      "table_cursor [''n''] [[SInt 7]]"]
  by (simp add: fake_driver_def)


section \<open>The result serializer\<close>

text \<open>Joining puts the separator before every item but the first.\<close>

lemma str_join_Cons:
  "str_join sep (x # xs) = x @ concat (map (\<lambda>y. sep @ y) xs)"
  by (induction xs arbitrary: x) auto

lemma serialize_rows_header_then_rows:
  "serialize_rows columns rows =
     str_join '','' columns
     @ concat (map (\<lambda>row. newline # str_join '','' (map str_scalar row)) rows)"
  by (simp add: serialize_rows_def str_join_Cons o_def)

text \<open>Splitting undoes joining, when no joined text holds the separator.\<close>

lemma str_split_nonempty: "str_split c s \<noteq> []"
  by (induction s) (auto split: list.splits)

lemma str_split_without: "c \<notin> set x \<Longrightarrow> str_split c x = [x]"
  by (induction x) auto

lemma str_split_append:
  "c \<notin> set x \<Longrightarrow> str_split c (x @ c # rest) = x # str_split c rest"
  by (induction x) auto

lemma str_split_join:
  assumes "xs \<noteq> []" and "\<forall>x \<in> set xs. c \<notin> set x"
  shows "str_split c (str_join [c] xs) = xs"
  using assms
proof (induction "[c]" xs rule: str_join.induct)
  case 1
  then show ?case by simp
next
  case (2 x)
  then show ?case by (simp add: str_split_without)
next
  case (3 x y ys)
  then show ?case by (simp add: str_split_append)
qed

lemma str_join_without:
  assumes "c \<notin> set sep" and "\<forall>x \<in> set xs. c \<notin> set x"
  shows "c \<notin> set (str_join sep xs)"
  using assms by (induction sep xs rule: str_join.induct) auto

lemma comma_not_newline: "newline \<notin> set '',''"
  by (simp add: newline_def)

text \<open>
  When no column name and no value holds a line feed, the lines of the text are the
  header and the rows, one each.  A value that holds a line feed is written as it is and
  spreads its row over several lines.
\<close>

lemma serialize_rows_split_lines:
  assumes cols: "\<forall>c \<in> set columns. newline \<notin> set c"
    and vals: "\<forall>row \<in> set rows. \<forall>v \<in> set row. newline \<notin> set (str_scalar v)"
  shows "str_split newline (serialize_rows columns rows) =
           str_join '','' columns # map (\<lambda>row. str_join '','' (map str_scalar row)) rows"
proof -
  have head: "newline \<notin> set (str_join '','' columns)"
    using comma_not_newline cols by (rule str_join_without)
  have row: "newline \<notin> set (str_join '','' (map str_scalar r))" if "r \<in> set rows" for r
    using comma_not_newline vals that by (intro str_join_without) auto
  have "\<forall>x \<in> set (str_join '','' columns # map (\<lambda>row. str_join '','' (map str_scalar row)) rows).
          newline \<notin> set x"
    using head row by auto
  then show ?thesis
    unfolding serialize_rows_def by (intro str_split_join) auto
qed

text \<open>
  Claim C5, as amended: for every tool call other than \<open>analyze_table\<close> whose statement
  yields a result set, the text returned is the column names joined by commas, then one
  line per row with the \<open>str\<close> of its values joined by commas, the lines joined by line
  feeds: the header followed, for every row, by a line feed and the row, so that no line
  feed follows the last row.  \<open>None\<close> is written as the text \<open>None\<close>.  For the columns
  \<open>a, b\<close> and the rows \<open>(1, x)\<close>, \<open>(2, None)\<close> the text is \<open>a,b\<close>, \<open>1,x\<close>,
  \<open>2,None\<close>, separated by two line feeds.
\<close>

theorem serialize_rows_returned:
  assumes "resolve_sql name args = Inr loc" and "name \<noteq> ''analyze_table''"
    and "connect drv = None" and "autocommit drv = None" and "cursor drv = None"
    and "cursor_exit drv = None" and "close drv = None"
    and "execute drv (sql loc) [] = Inr cur"
    and "description cur = Some columns" and "fetchall cur = Inr rows"
  shows "call_tool drv name args =
           (Inr [TextContent ''text''
                   (str_join [newline]
                      (str_join '','' columns
                       # map (\<lambda>row. str_join '','' (map str_scalar row)) rows))],
            [Connect, SetAutocommit, Cursor, Execute (sql loc) [], Fetchall, CursorExit, Close])
       \<and> str_join [newline]
            (str_join '','' columns # map (\<lambda>row. str_join '','' (map str_scalar row)) rows)
           = str_join '','' columns
             @ concat (map (\<lambda>row. newline # str_join '','' (map str_scalar row)) rows)
       \<and> str_scalar SNone = ''None''
       \<and> serialize_rows [''a'', ''b''] [[SInt 1, SStr ''x''], [SInt 2, SNone]]
           = ''a,b\<newline>1,x\<newline>2,None''"
proof (intro conjI)
  show "call_tool drv name args =
           (Inr [TextContent ''text''
                   (str_join [newline]
                      (str_join '','' columns
                       # map (\<lambda>row. str_join '','' (map str_scalar row)) rows))],
            [Connect, SetAutocommit, Cursor, Execute (sql loc) [], Fetchall, CursorExit, Close])"
    using assms
    by (simp add: call_tool_def try_connection_def with_cursor_def tool_body_def
        serialize_rows_def)
  show "str_join [newline]
            (str_join '','' columns # map (\<lambda>row. str_join '','' (map str_scalar row)) rows)
           = str_join '','' columns
             @ concat (map (\<lambda>row. newline # str_join '','' (map str_scalar row)) rows)"
    by (simp add: str_join_Cons o_def)
  show "str_scalar SNone = ''None''" by simp
  show "serialize_rows [''a'', ''b''] [[SInt 1, SStr ''x''], [SInt 2, SNone]]
           = ''a,b\<newline>1,x\<newline>2,None''"
    by (simp add: serialize_rows_def str_int_def str_nat.simps digit_char_def newline_def)
qed

theorem serialize_rows_returned_witness:
  "call_tool (fake_driver (\<lambda>stmt params.
        Inr (table_cursor [''a'', ''b''] [[SInt 1, SStr ''x''], [SInt 2, SNone]])))
      ''execute_sql'' [''sql'' \<mapsto> ''select a, b from t''] =
     (Inr [TextContent ''text'' ''a,b\<newline>1,x\<newline>2,None''],
      [Connect, SetAutocommit, Cursor, Execute ''select a, b from t'' [], Fetchall,
       CursorExit, Close])"
proof -
  let ?cur = "table_cursor [''a'', ''b''] [[SInt 1, SStr ''x''], [SInt 2, SNone]]"
  let ?drv = "fake_driver (\<lambda>stmt params. Inr ?cur)"
  let ?loc = "\<lparr>sql = ''select a, b from t'', schema = None, table = None\<rparr>"
  have r: "resolve_sql ''execute_sql'' [''sql'' \<mapsto> ''select a, b from t''] = Inr ?loc"
    by (simp add: resolve_sql_def falsy_def str_arg_def)
  have n: "''execute_sql'' \<noteq> ''analyze_table''" by simp
  have d: "connect ?drv = None" "autocommit ?drv = None" "cursor ?drv = None"
    "cursor_exit ?drv = None" "close ?drv = None" "execute ?drv (sql ?loc) [] = Inr ?cur"
    by (simp_all add: fake_driver_def)
  have c: "description ?cur = Some [''a'', ''b'']"
    "fetchall ?cur = Inr [[SInt 1, SStr ''x''], [SInt 2, SNone]]"
    by (simp_all add: table_cursor_def)
  show ?thesis
    using serialize_rows_returned [OF r n d c]
    by (simp add: str_int_def str_nat.simps digit_char_def newline_def)
qed

text \<open>
  Claim C5 as stated (a null is an empty field, and the text for that example ends with a
  line feed after \<open>2,\<close>) fails on the example.
\<close>

theorem serialize_rows_null_and_last_line:
  "serialize_rows [''a'', ''b''] [[SInt 1, SStr ''x''], [SInt 2, SNone]]
     \<noteq> ''a,b\<newline>1,x\<newline>2,\<newline>''"
  by (simp add: serialize_rows_def str_int_def str_nat.simps digit_char_def newline_def)

section \<open>The schema listing\<close>

text \<open>The pattern \<open>pg_%\<close> holds for the names of three or more characters that start with \<open>pg\<close>.\<close>

lemma sql_like_percent: "sql_like ''%'' s"
  by (induction s) auto

lemma sql_like_pg: "sql_like ''pg_%'' n \<longleftrightarrow> 3 \<le> length n \<and> take 2 n = ''pg''"
proof (cases n)
  case Nil
  then show ?thesis by simp
next
  case n1: (Cons a r1)
  show ?thesis
  proof (cases r1)
    case Nil
    with n1 show ?thesis by simp
  next
    case n2: (Cons b r2)
    show ?thesis
    proof (cases r2)
      case Nil
      with n1 n2 show ?thesis by simp
    next
      case (Cons c r3)
      with n1 n2 show ?thesis using sql_like_percent [of r3] by auto
    qed
  qed
qed

text \<open>Rows of one text each are joined by line feeds without an error.\<close>

lemma first_column_names: "first_column (map (\<lambda>n. [SStr n]) ns) = Inr (map SStr ns)"
  by (induction ns) auto

lemma str_items_names: "str_items i (map SStr ns) = Inr ns"
  by (induction ns arbitrary: i) auto

lemma fetch_names_names:
  "fetchall cur = Inr (map (\<lambda>n. [SStr n]) ns) \<Longrightarrow> fetch_names cur = Inr (str_join [newline] ns)"
  by (simp add: fetch_names_def first_column_names join_lines_def str_items_names)

text \<open>
  The statement text of lines 229-234, read word by word, and what it selects from any
  list of namespaces.
\<close>

lemma schemas_sql_parsed:
  "parse_select schemas_sql =
     Some \<lparr>sel_column = ''nspname'', sel_alias = ''schema_name'', sel_table = ''pg_namespace'',
           sel_where = [NotLike ''nspname'' ''pg_%'', Differs ''nspname'' ''information_schema'',
                        Differs ''nspname'' ''catalog_history''],
           sel_order = Some ''schema_name''\<rparr>"
  by (simp add: parse_select_def schemas_sql_def is_space_def newline_def parse_where_def
      mk_cond_def unquote_def parse_order_def)

lemma schemas_sql_selects:
  "run_select schemas_sql (namespaces nspnames) =
     Some (''schema_name'',
           sort (filter (\<lambda>n. \<not> sql_like ''pg_%'' n \<and> n \<noteq> ''information_schema''
                              \<and> n \<noteq> ''catalog_history'') nspnames))"
  by (simp add: run_select_def schemas_sql_parsed namespaces_def col_index_def filter_map o_def)

text \<open>The fake warehouse of the earlier sections answers the statement as the evaluator does.\<close>

lemma warehouse_answers_statement:
  "execute (warehouse nspnames) schemas_sql [] =
     execute (sql_warehouse (namespaces nspnames)) schemas_sql []"
proof -
  have "schema_selected =
          (\<lambda>n. \<not> sql_like ''pg_%'' n \<and> n \<noteq> ''information_schema'' \<and> n \<noteq> ''catalog_history'')"
    by (rule ext) (simp add: schema_selected_def)
  then show ?thesis
    by (simp add: warehouse_def sql_warehouse_def fake_driver_def schemas_sql_selects
        schemas_query_def)
qed

lemma selected_names_sorted:
  "sorted (sort (filter (\<lambda>n. \<not> sql_like ''pg_%'' n \<and> n \<noteq> ''information_schema''
                              \<and> n \<noteq> ''catalog_history'') nspnames))
   \<and> set (sort (filter (\<lambda>n. \<not> sql_like ''pg_%'' n \<and> n \<noteq> ''information_schema''
                              \<and> n \<noteq> ''catalog_history'') nspnames))
       = {n. n \<in> set nspnames \<and> (length n < 3 \<or> take 2 n \<noteq> ''pg'')
             \<and> n \<noteq> ''information_schema'' \<and> n \<noteq> ''catalog_history''}"
  by (auto simp: sql_like_pg)

text \<open>
  Claim C7, as amended: on a warehouse that runs the statement the listing sends, over
  any list of namespaces, the schema listing returns the names with every name that is
  \<open>LIKE 'pg_%'\<close>, \<open>information_schema\<close> and \<open>catalog_history\<close> left out, in ascending
  order, joined by line feeds: one name per line, with no line feed after the last name.
  The filter and the order are those of the statement text itself.
\<close>

theorem get_schemas_lists_selected:
  "get_schemas (sql_warehouse (namespaces nspnames)) =
     (Inr (str_join [newline]
             (sort (filter (\<lambda>n. \<not> sql_like ''pg_%'' n \<and> n \<noteq> ''information_schema''
                                  \<and> n \<noteq> ''catalog_history'') nspnames))),
      [Cursor, Execute schemas_sql [], Fetchall, CursorExit])"
  by (simp add: get_schemas_def with_cursor_def sql_warehouse_def fake_driver_def
      schemas_sql_selects table_cursor_def fetch_names_names)

text \<open>
  With \<open>public\<close>, \<open>pg_catalog\<close>, \<open>information_schema\<close> and \<open>finance\<close> present the text
  is \<open>finance\<close>, a line feed, \<open>public\<close>.
\<close>

theorem get_schemas_lists_selected_witness:
  "get_schemas (sql_warehouse
       (namespaces [''public'', ''pg_catalog'', ''information_schema'', ''finance''])) =
     (Inr ''finance\<newline>public'', [Cursor, Execute schemas_sql [], Fetchall, CursorExit])"
  using get_schemas_lists_selected
          [of "[''public'', ''pg_catalog'', ''information_schema'', ''finance'']"]
  by (simp add: newline_def)

text \<open>
  Claim C7 as stated gives, for that example, a text that ends with a line feed; the
  listing does not return it.
\<close>

theorem get_schemas_no_final_newline:
  "fst (get_schemas (sql_warehouse
          (namespaces [''public'', ''pg_catalog'', ''information_schema'', ''finance''])))
     \<noteq> Inr ''finance\<newline>public\<newline>''"
  by (simp add: get_schemas_def with_cursor_def sql_warehouse_def fake_driver_def
      schemas_sql_selects table_cursor_def fetch_names_def join_lines_def newline_def)

end
